theory Spec2Isabelle
  imports Complex_Main "HOL-Library.Sublist"
begin

section \<open>Values, errors and the Objective vocabulary\<close>

text \<open>
  The client library builds rubrics and short-answer questions, serializes them to
  JSON-like values and sends them to a grading service. Python values that cross the
  wire (payloads, serializations, decoded responses) are modelled by \<open>pyval\<close>; a
  \<open>dict\<close> is an association list in insertion order. A Python float (an IEEE double)
  is a \<open>pyfloat\<close>: a finite float is the rational number it denotes, and there are the
  two infinities and NaN. An int on the wire is the finite number it denotes.
\<close>

datatype pyfloat = Finite rat | PosInf | NegInf | NaN

datatype pyval =
    PyNone
  | PyNum pyfloat
  | PyStr string
  | PyList "pyval list"
  | PyDict "(string \<times> pyval) list"

text \<open>
  \<open>core/errors.py\<close>: \<open>ValidationError\<close> carries a message. The message is either a
  literal of the source (\<open>Msg\<close>) or pydantic's JSON rendering of a failed field
  validation (\<open>PydanticJson\<close>, holding the validator's own text). \<open>ValueError\<close> and
  \<open>AttributeError\<close> are the built-in exceptions that \<open>Rubric.from_dict\<close> catches.
\<close>

datatype message = Msg string | PydanticJson string

datatype error =
    ValidationError message
  | ValueError string
  | AttributeError string
  | KeyError string
  | TypeError string
  | Exception pyval
  | TransportError string

text \<open>\<open>core/models/objective.py\<close>: the enumeration and its values (the wire labels).\<close>

datatype Objective =
  FACTUAL | CLARITY | CREATIVITY | ANALYSIS | APPLICATION | EVIDENCE | REFLECTION

fun Objective_value :: "Objective \<Rightarrow> string" where
  "Objective_value FACTUAL = ''factual understanding''"
| "Objective_value CLARITY = ''clarity of writing''"
| "Objective_value CREATIVITY = ''creativity''"
| "Objective_value ANALYSIS = ''analytical skills''"
| "Objective_value APPLICATION = ''application of knowledge''"
| "Objective_value EVIDENCE = ''use of evidence''"
| "Objective_value REFLECTION = ''self reflection''"

text \<open>\<open>Objective(label)\<close>: lookup by value; \<open>None\<close> stands for the \<open>ValueError\<close>.\<close>

definition Objective_of_value :: "string \<Rightarrow> Objective option" where
  "Objective_of_value s =
     (if s = ''factual understanding'' then Some FACTUAL
      else if s = ''clarity of writing'' then Some CLARITY
      else if s = ''creativity'' then Some CREATIVITY
      else if s = ''analytical skills'' then Some ANALYSIS
      else if s = ''application of knowledge'' then Some APPLICATION
      else if s = ''use of evidence'' then Some EVIDENCE
      else if s = ''self reflection'' then Some REFLECTION
      else None)"

section \<open>GradingCriteria and the object store\<close>

text \<open>
  \<open>core/models/grading_criteria.py\<close>. A \<open>GradingCriteria\<close> object is never mutated by
  the library, so it is a value together with its object identity \<open>oid\<close>, drawn from a
  counter of the store.

  The weight that the constructor receives is a Python float. \<open>DBL_MAX\<close> is the
  largest finite double. The float operations of the validator: \<open>x * 2\<close> is exact
  unless the product exceeds \<open>DBL_MAX\<close>, where it is an infinity; \<open>x % 1\<close> of a finite
  \<open>x\<close> is \<open>frac x\<close> (exact, with the sign of the divisor) and is NaN for an infinity
  and for NaN; \<open>x <= 0\<close> is false and \<open>x != 0\<close> is true of NaN.
\<close>

definition DBL_MAX :: rat where
  "DBL_MAX = (2 ^ 53 - 1) * 2 ^ 971"

fun float_times_two :: "pyfloat \<Rightarrow> pyfloat" where
  "float_times_two (Finite q) =
     (if DBL_MAX < q * 2 then PosInf
      else if q * 2 < - DBL_MAX then NegInf
      else Finite (q * 2))"
| "float_times_two PosInf = PosInf"
| "float_times_two NegInf = NegInf"
| "float_times_two NaN = NaN"

fun float_mod_one :: "pyfloat \<Rightarrow> pyfloat" where
  "float_mod_one (Finite q) = Finite (frac q)"
| "float_mod_one PosInf = NaN"
| "float_mod_one NegInf = NaN"
| "float_mod_one NaN = NaN"

fun float_ne_zero :: "pyfloat \<Rightarrow> bool" where
  "float_ne_zero (Finite q) = (q \<noteq> 0)"
| "float_ne_zero PosInf = True"
| "float_ne_zero NegInf = True"
| "float_ne_zero NaN = True"

fun float_le_zero :: "pyfloat \<Rightarrow> bool" where
  "float_le_zero (Finite q) = (q \<le> 0)"
| "float_le_zero PosInf = False"
| "float_le_zero NegInf = True"
| "float_le_zero NaN = False"

record GradingCriteria =
  oid :: nat
  objective :: Objective
  weight :: pyfloat

text \<open>The field validator: \<open>value <= 0\<close>, then \<open>(value * 2) % 1 != 0\<close>.\<close>

definition validate_weight :: "pyfloat \<Rightarrow> string + pyfloat" where
  "validate_weight v =
     (if float_le_zero v then Inl ''Weight must be greater than 0.''
      else if float_ne_zero (float_mod_one (float_times_two v))
      then Inl ''Weight must be a multiple of 0.5''
      else Inr v)"

text \<open>\<open>core/models/rubric.py\<close>: the presets with their default criteria.\<close>

datatype RubricType =
    FACTUAL_RUBRIC
  | ANALYTICAL_RUBRIC
  | CREATIVE_RUBRIC
  | APPLICATION_RUBRIC
  | COMPREHENSIVE_RUBRIC
  | COMMUNICATION_RUBRIC
  | CUSTOM_RUBRIC

fun label :: "RubricType \<Rightarrow> string" where
  "label FACTUAL_RUBRIC = ''Factual Rubric''"
| "label ANALYTICAL_RUBRIC = ''Analytical Rubric''"
| "label CREATIVE_RUBRIC = ''Creative Rubric''"
| "label APPLICATION_RUBRIC = ''Application Rubric''"
| "label COMPREHENSIVE_RUBRIC = ''Comprehensive Rubric''"
| "label COMMUNICATION_RUBRIC = ''Communication Rubric''"
| "label CUSTOM_RUBRIC = ''Custom Rubric''"

fun default_criteria :: "RubricType \<Rightarrow> (Objective \<times> pyfloat) list" where
  "default_criteria FACTUAL_RUBRIC = [(FACTUAL, Finite 1), (EVIDENCE, Finite 1), (CLARITY, Finite 1)]"
| "default_criteria ANALYTICAL_RUBRIC = [(ANALYSIS, Finite 1), (EVIDENCE, Finite 1), (REFLECTION, Finite 1)]"
| "default_criteria CREATIVE_RUBRIC = [(CREATIVITY, Finite 1), (CLARITY, Finite 1), (REFLECTION, Finite 1)]"
| "default_criteria APPLICATION_RUBRIC = [(APPLICATION, Finite 1), (ANALYSIS, Finite 1), (FACTUAL, Finite 1)]"
| "default_criteria COMPREHENSIVE_RUBRIC =
     [(FACTUAL, Finite 1), (ANALYSIS, Finite 1), (APPLICATION, Finite 1), (CREATIVITY, Finite 1)]"
| "default_criteria COMMUNICATION_RUBRIC = [(CLARITY, Finite 1), (REFLECTION, Finite 1), (CREATIVITY, Finite 1)]"
| "default_criteria CUSTOM_RUBRIC = []"

text \<open>
  A \<open>Rubric\<close> object is mutable and can be shared, so rubrics live in a store and are
  referred to by address. The store also holds the counter of \<open>GradingCriteria\<close>
  identities, the rubric that \<open>ShortAnswerQuestion.__init__\<close> has as its default
  argument, and the log of requests posted to the grading service.
\<close>

type_synonym addr = nat

record Rubric =
  criteria :: "(Objective \<times> GradingCriteria) list"
  rubric_type :: RubricType

record request =
  url :: string
  json :: pyval
  headers :: "(string \<times> string) list"
  timeout :: nat

record state =
  rubric_heap :: "addr \<Rightarrow> Rubric"
  next_rubric :: addr
  next_criteria :: nat
  default_rubric :: addr
  sent :: "request list"

text \<open>
  \<open>GradingCriteria.__init__\<close>: pydantic runs the validator; its failure is re-raised
  as a \<open>ValidationError\<close> built from pydantic's JSON.
\<close>

definition GradingCriteria_init ::
  "Objective \<Rightarrow> pyfloat \<Rightarrow> state \<Rightarrow> (error + GradingCriteria) \<times> state" where
  "GradingCriteria_init obj w st =
     (case validate_weight w of
        Inl m \<Rightarrow> (Inl (ValidationError (PydanticJson m)), st)
      | Inr v \<Rightarrow>
          (Inr \<lparr>oid = next_criteria st, objective = obj, weight = v\<rparr>,
           st\<lparr>next_criteria := Suc (next_criteria st)\<rparr>))"

section \<open>Rubric\<close>

text \<open>\<open>d[k] = v\<close> on an insertion-ordered dict: an existing key keeps its position.\<close>

fun dict_set :: "('k \<times> 'v) list \<Rightarrow> 'k \<Rightarrow> 'v \<Rightarrow> ('k \<times> 'v) list" where
  "dict_set [] k v = [(k, v)]"
| "dict_set ((k', v') # d) k v =
     (if k' = k then (k', v) # d else (k', v') # dict_set d k v)"

text \<open>\<open>Rubric.__init__\<close> allocates the object; \<open>size\<close> is \<open>len(self.criteria)\<close>.\<close>

definition Rubric_init ::
  "(Objective \<times> GradingCriteria) list \<Rightarrow> RubricType \<Rightarrow> state \<Rightarrow> addr \<times> state" where
  "Rubric_init c t st =
     (next_rubric st,
      st\<lparr>rubric_heap := (rubric_heap st)(next_rubric st := \<lparr>criteria = c, rubric_type = t\<rparr>),
         next_rubric := Suc (next_rubric st)\<rparr>)"

definition Rubric_size :: "addr \<Rightarrow> state \<Rightarrow> nat" where
  "Rubric_size r st = length (criteria (rubric_heap st r))"

definition Rubric_empty :: "state \<Rightarrow> addr \<times> state" where
  "Rubric_empty st = Rubric_init [] CUSTOM_RUBRIC st"

text \<open>
  \<open>Rubric.add_criteria\<close>. The \<open>isinstance\<close> guard is a branch of the model: the
  argument is either an \<open>Objective\<close> or some other value.
\<close>

datatype objective_arg = AnObjective Objective | NotAnObjective pyval

definition Rubric_add_criteria ::
  "addr \<Rightarrow> objective_arg \<Rightarrow> pyfloat \<Rightarrow> state \<Rightarrow> (error + unit) \<times> state" where
  "Rubric_add_criteria r arg w st =
     (case arg of
        NotAnObjective _ \<Rightarrow>
          (Inl (ValidationError (Msg ''Objective must be an instance of the Objective class.'')),
           st)
      | AnObjective obj \<Rightarrow>
          (case GradingCriteria_init obj w st of
             (Inl e, st') \<Rightarrow> (Inl e, st')
           | (Inr c, st') \<Rightarrow>
               (Inr (),
                st'\<lparr>rubric_heap := (rubric_heap st')
                   (r := (rubric_heap st' r)
                      \<lparr>criteria := dict_set (criteria (rubric_heap st' r)) obj c\<rparr>)\<rparr>)))"

text \<open>
  \<open>Rubric.serialize\<close>: a dict comprehension from the objective's value to the weight
  as a float.
\<close>

definition Rubric_serialize :: "addr \<Rightarrow> state \<Rightarrow> pyval" where
  "Rubric_serialize r st =
     PyDict (foldl (\<lambda>d (obj, c). dict_set d (Objective_value obj) (PyNum (weight c)))
               [] (criteria (rubric_heap st r)))"

text \<open>
  \<open>RubricType.criteria\<close>: the list comprehension of \<open>GradingCriteria(objective, weight)\<close>
  over the defaults, left to right; the first failure ends it.
\<close>

fun RubricType_criteria_list ::
  "(Objective \<times> pyfloat) list \<Rightarrow> state \<Rightarrow> (error + GradingCriteria list) \<times> state" where
  "RubricType_criteria_list [] st = (Inr [], st)"
| "RubricType_criteria_list ((obj, w) # ds) st =
     (case GradingCriteria_init obj w st of
        (Inl e, st') \<Rightarrow> (Inl e, st')
      | (Inr c, st') \<Rightarrow>
          (case RubricType_criteria_list ds st' of
             (Inl e, st'') \<Rightarrow> (Inl e, st'')
           | (Inr cs, st'') \<Rightarrow> (Inr (c # cs), st'')))"

definition RubricType_criteria ::
  "RubricType \<Rightarrow> state \<Rightarrow> (error + GradingCriteria list) \<times> state" where
  "RubricType_criteria t st = RubricType_criteria_list (default_criteria t) st"

text \<open>\<open>Rubric.from_rubric_type\<close>: a dict keyed by each criteria's objective.\<close>

definition Rubric_from_rubric_type :: "RubricType \<Rightarrow> state \<Rightarrow> (error + addr) \<times> state" where
  "Rubric_from_rubric_type t st =
     (case RubricType_criteria t st of
        (Inl e, st') \<Rightarrow> (Inl e, st')
      | (Inr cs, st') \<Rightarrow>
          (case Rubric_init (foldl (\<lambda>d c. dict_set d (objective c) c) [] cs) t st' of
             (r, st'') \<Rightarrow> (Inr r, st'')))"

text \<open>
  \<open>Rubric.from_dict\<close>. The payload is untyped at run time. \<open>payload.items()\<close> raises
  \<open>AttributeError\<close> on anything but a dict. For each item, in order, \<open>Objective(label)\<close>
  raises \<open>ValueError\<close> on an unknown label, and the constructor validates the weight.
  The weight field is declared \<open>float\<close>: pydantic passes a number on to the validator
  as it is, rejects \<open>None\<close>, lists and dicts, and parses a string by rules of its own,
  which are the parameter \<open>str_float\<close>.
\<close>

fun pydantic_float :: "(string \<Rightarrow> pyfloat option) \<Rightarrow> pyval \<Rightarrow> pyfloat option" where
  "pydantic_float str_float (PyNum q) = Some q"
| "pydantic_float str_float (PyStr s) = str_float s"
| "pydantic_float str_float PyNone = None"
| "pydantic_float str_float (PyList _) = None"
| "pydantic_float str_float (PyDict _) = None"

fun from_dict_items ::
  "(string \<Rightarrow> pyfloat option) \<Rightarrow> (string \<times> pyval) list \<Rightarrow> (Objective \<times> GradingCriteria) list \<Rightarrow>
   state \<Rightarrow> (error + (Objective \<times> GradingCriteria) list) \<times> state" where
  "from_dict_items str_float [] acc st = (Inr acc, st)"
| "from_dict_items str_float ((k, v) # items) acc st =
     (case Objective_of_value k of
        None \<Rightarrow> (Inl (ValueError k), st)
      | Some obj \<Rightarrow>
          (case pydantic_float str_float v of
             None \<Rightarrow>
               (Inl (ValidationError (PydanticJson ''Input should be a valid number'')), st)
           | Some w \<Rightarrow>
               (case GradingCriteria_init obj w st of
                  (Inl e, st') \<Rightarrow> (Inl e, st')
                | (Inr c, st') \<Rightarrow> from_dict_items str_float items (dict_set acc obj c) st')))"

definition Rubric_from_dict ::
  "(string \<Rightarrow> pyfloat option) \<Rightarrow> pyval \<Rightarrow> state \<Rightarrow> (error + addr) \<times> state" where
  "Rubric_from_dict str_float payload st =
     (case (case payload of
              PyDict items \<Rightarrow> from_dict_items str_float items [] st
            | _ \<Rightarrow> (Inl (AttributeError ''items''), st)) of
        (Inr c, st') \<Rightarrow> (case Rubric_init c CUSTOM_RUBRIC st' of (r, st'') \<Rightarrow> (Inr r, st''))
      | (Inl (ValueError _), st') \<Rightarrow> (Inl (ValidationError (Msg ''Invalid payload.'')), st')
      | (Inl (AttributeError _), st') \<Rightarrow>
          (Inl (ValidationError (Msg ''Invalid payload provided. Must be a dictionary.'')), st')
      | (Inl e, st') \<Rightarrow> (Inl e, st'))"

section \<open>RPCClient\<close>

text \<open>
  \<open>core/client/client.py\<close>. The process environment and the grading service are outside
  the library: \<open>environ\<close> is \<open>os.environ\<close>, and \<open>respond\<close> gives, for a posted request,
  the decoded JSON body of the reply or the failure of the transport.
\<close>

record world =
  environ :: "string \<Rightarrow> string option"
  respond :: "request \<Rightarrow> error + pyval"

record RPCClient =
  endpoint :: string
  api_key :: string

definition HOSTED_ENDPOINT :: string where
  "HOSTED_ENDPOINT = ''http://18.118.162.4/''"

text \<open>A string is truthy when it is not empty; an unset variable reads as falsy.\<close>

definition RPCClient_init :: "world \<Rightarrow> string option \<Rightarrow> RPCClient" where
  "RPCClient_init w key =
     \<lparr>endpoint =
        (case environ w ''OVERRIDDEN_ENDPOINT'' of
           Some e \<Rightarrow> if e \<noteq> [] then e else HOSTED_ENDPOINT
         | None \<Rightarrow> HOSTED_ENDPOINT),
      api_key =
        (case key of
           Some k \<Rightarrow>
             if k \<noteq> [] then k
             else (case environ w ''TURING_API_KEY'' of Some k' \<Rightarrow> k' | None \<Rightarrow> [])
         | None \<Rightarrow> (case environ w ''TURING_API_KEY'' of Some k' \<Rightarrow> k' | None \<Rightarrow> []))\<rparr>"

definition RPCClient_headers :: "RPCClient \<Rightarrow> (string \<times> string) list" where
  "RPCClient_headers c = [(''Authorization'', ''Bearer '' @ api_key c)]"

definition RPCClient_payload :: "string \<Rightarrow> pyval \<Rightarrow> pyval" where
  "RPCClient_payload method params =
     PyDict [(''id'', PyNum (Finite 1)), (''jsonrpc'', PyStr ''2.0''),
             (''method'', PyStr method), (''params'', params)]"

text \<open>
  \<open>k in v\<close> and \<open>v[k]\<close> for a string \<open>k\<close>, on every kind of decoded JSON value: key
  membership and lookup on a dict, element and substring tests on a list and a string
  (which cannot be indexed by a string), \<open>TypeError\<close> on a number and on \<open>None\<close>.
\<close>

fun py_contains :: "pyval \<Rightarrow> string \<Rightarrow> error + bool" where
  "py_contains (PyDict d) k = Inr (k \<in> set (map fst d))"
| "py_contains (PyList xs) k = Inr (PyStr k \<in> set xs)"
| "py_contains (PyStr s) k = Inr (sublist k s)"
| "py_contains (PyNum _) k = Inl (TypeError ''argument is not iterable'')"
| "py_contains PyNone k = Inl (TypeError ''argument is not iterable'')"

fun py_getitem :: "pyval \<Rightarrow> string \<Rightarrow> error + pyval" where
  "py_getitem (PyDict d) k = (case map_of d k of None \<Rightarrow> Inl (KeyError k) | Some v \<Rightarrow> Inr v)"
| "py_getitem (PyList _) k = Inl (TypeError ''list indices must be integers or slices, not str'')"
| "py_getitem (PyStr _) k = Inl (TypeError ''string indices must be integers'')"
| "py_getitem (PyNum _) k = Inl (TypeError ''object is not subscriptable'')"
| "py_getitem PyNone k = Inl (TypeError ''object is not subscriptable'')"

definition RPCClient_parse_response :: "pyval \<Rightarrow> error + pyval" where
  "RPCClient_parse_response response_data =
     (case py_contains response_data ''error'' of
        Inl e \<Rightarrow> Inl e
      | Inr True \<Rightarrow>
          (case py_getitem response_data ''error'' of
             Inl e \<Rightarrow> Inl e
           | Inr detail \<Rightarrow> Inl (Exception detail))
      | Inr False \<Rightarrow> py_getitem response_data ''result'')"

text \<open>\<open>_make_request\<close>: one POST, recorded in the log, then the reply is parsed.\<close>

definition RPCClient_make_request ::
  "world \<Rightarrow> RPCClient \<Rightarrow> string \<Rightarrow> pyval \<Rightarrow> state \<Rightarrow> (error + pyval) \<times> state" where
  "RPCClient_make_request w c method params st =
     (let req = \<lparr>url = endpoint c, json = RPCClient_payload method params,
                 headers = RPCClient_headers c, timeout = 10\<rparr>;
          st' = st\<lparr>sent := sent st @ [req]\<rparr>
      in case respond w req of
           Inl e \<Rightarrow> (Inl e, st')
         | Inr response_data \<Rightarrow> (RPCClient_parse_response response_data, st'))"

definition RPCClient_short_answer ::
  "world \<Rightarrow> RPCClient \<Rightarrow> pyval \<Rightarrow> string \<Rightarrow> state \<Rightarrow> (error + pyval \<times> pyval) \<times> state" where
  "RPCClient_short_answer w c data answer st =
     (case RPCClient_make_request w c ''short_answer'' (PyList [data, PyStr answer]) st of
        (Inl e, st') \<Rightarrow> (Inl e, st')
      | (Inr result, st') \<Rightarrow>
          (case py_getitem result ''feedback'' of
             Inl e \<Rightarrow> (Inl e, st')
           | Inr feedback \<Rightarrow>
               (case py_getitem result ''score'' of
                  Inl e \<Rightarrow> (Inl e, st')
                | Inr score \<Rightarrow> (Inr (feedback, score), st'))))"

section \<open>ShortAnswerQuestion\<close>

text \<open>
  \<open>core/models/short_answer.py\<close>. A question refers to its rubric by address. The
  default value of the \<open>rubric\<close> parameter, \<open>Rubric.empty()\<close>, is evaluated when the
  class statement runs (\<open>ShortAnswerQuestion_class\<close>), not at each call of \<open>__init__\<close>.
\<close>

record ShortAnswerQuestion =
  body :: string
  example_answer :: string
  rubric :: addr

definition ShortAnswerQuestion_class :: "state \<Rightarrow> state" where
  "ShortAnswerQuestion_class st =
     (case Rubric_empty st of (r, st') \<Rightarrow> st'\<lparr>default_rubric := r\<rparr>)"

definition ShortAnswerQuestion_init ::
  "string \<Rightarrow> string \<Rightarrow> addr option \<Rightarrow> state \<Rightarrow> ShortAnswerQuestion" where
  "ShortAnswerQuestion_init b a r st =
     \<lparr>body = b, example_answer = a,
      rubric = (case r of None \<Rightarrow> default_rubric st | Some r' \<Rightarrow> r')\<rparr>"

definition ShortAnswerQuestion_add_criteria ::
  "ShortAnswerQuestion \<Rightarrow> objective_arg \<Rightarrow> pyfloat \<Rightarrow> state \<Rightarrow> (error + unit) \<times> state" where
  "ShortAnswerQuestion_add_criteria q arg w st = Rubric_add_criteria (rubric q) arg w st"

datatype rubric_arg = ARubric addr | NotARubric pyval

definition ShortAnswerQuestion_set_rubric ::
  "ShortAnswerQuestion \<Rightarrow> rubric_arg \<Rightarrow> error + ShortAnswerQuestion" where
  "ShortAnswerQuestion_set_rubric q arg =
     (case arg of
        NotARubric _ \<Rightarrow> Inl (ValidationError (Msg ''Rubric must be an instance of the Rubric class.''))
      | ARubric r \<Rightarrow> Inr (q\<lparr>rubric := r\<rparr>))"

text \<open>\<open>_is_valid\<close>: the rubric's size first, then the two strings.\<close>

definition ShortAnswerQuestion_is_valid :: "ShortAnswerQuestion \<Rightarrow> state \<Rightarrow> error + unit" where
  "ShortAnswerQuestion_is_valid q st =
     (if Rubric_size (rubric q) st = 0
      then Inl (ValidationError (Msg ''Rubric must have at least one criteria.''))
      else if \<not> (body q \<noteq> [] \<and> example_answer q \<noteq> [])
      then Inl (ValidationError (Msg ''Question body and example answer cannot be empty.''))
      else Inr ())"

definition ShortAnswerQuestion_serialize :: "ShortAnswerQuestion \<Rightarrow> state \<Rightarrow> pyval" where
  "ShortAnswerQuestion_serialize q st =
     PyDict [(''question'', PyStr (body q)),
             (''example_answer'', PyStr (example_answer q)),
             (''rubric'', Rubric_serialize (rubric q) st)]"

definition ShortAnswerQuestion_grade ::
  "world \<Rightarrow> ShortAnswerQuestion \<Rightarrow> string \<Rightarrow> state \<Rightarrow> (error + pyval \<times> pyval) \<times> state" where
  "ShortAnswerQuestion_grade w q answer st =
     RPCClient_short_answer w (RPCClient_init w None) (ShortAnswerQuestion_serialize q st) answer st"

definition ShortAnswerQuestion_from_rubric_type ::
  "string \<Rightarrow> string \<Rightarrow> RubricType \<Rightarrow> state \<Rightarrow> (error + ShortAnswerQuestion) \<times> state" where
  "ShortAnswerQuestion_from_rubric_type b a t st =
     (case Rubric_from_rubric_type t st of
        (Inl e, st') \<Rightarrow> (Inl e, st')
      | (Inr r, st') \<Rightarrow> (Inr (ShortAnswerQuestion_init b a (Some r) st'), st'))"

text \<open>
  \<open>core/models/question.py\<close> holds an older \<open>ShortAnswerQuestion\<close> with the same fields,
  the same rubric code and this \<open>_serialize\<close>.
\<close>

definition question_py_serialize :: "ShortAnswerQuestion \<Rightarrow> state \<Rightarrow> pyval" where
  "question_py_serialize q st =
     PyDict [(''body'', PyStr (body q)),
             (''example_answer'', PyStr (example_answer q)),
             (''rubric'', Rubric_serialize (rubric q) st)]"

text \<open>
  The store of a fresh process, and the store once the module \<open>short_answer\<close> has been
  imported.
\<close>

definition fresh_state :: state where
  "fresh_state =
     \<lparr>rubric_heap = (\<lambda>_. \<lparr>criteria = [], rubric_type = CUSTOM_RUBRIC\<rparr>),
      next_rubric = 0, next_criteria = 0, default_rubric = 0, sent = []\<rparr>"

definition module_state :: state where
  "module_state = ShortAnswerQuestion_class fresh_state"

section \<open>GradingCriteria: the weight constraint\<close>

lemma two_le_DBL_MAX: "2 \<le> DBL_MAX"
  by (simp add: DBL_MAX_def)

lemma validate_weight_Finite:
  "validate_weight (Finite q) =
     (if q \<le> 0 then Inl ''Weight must be greater than 0.''
      else if 2 * q \<notin> \<int> \<or> DBL_MAX < 2 * q then Inl ''Weight must be a multiple of 0.5''
      else Inr (Finite q))"
  by (simp add: validate_weight_def mult.commute)

lemma validate_weight_not_finite:
  "validate_weight PosInf = Inl ''Weight must be a multiple of 0.5''"
  "validate_weight NegInf = Inl ''Weight must be greater than 0.''"
  "validate_weight NaN = Inl ''Weight must be a multiple of 0.5''"
  by (simp_all add: validate_weight_def)

text \<open>
  C2, as amended. For every float weight \<open>w\<close> and every objective, constructing a
  GradingCriteria fails with a ValidationError if and only if \<open>w\<close> is not finite, or
  \<open>w \<le> 0\<close>, or \<open>2 * w\<close> is not an integer, or \<open>2 * w\<close> exceeds the largest finite
  float (the float product is then an infinity, whose remainder is NaN); otherwise the
  construction succeeds and the stored weight is \<open>w\<close>.
\<close>

theorem GradingCriteria_init_fails_iff:
  "((\<exists>m. fst (GradingCriteria_init obj w st) = Inl (ValidationError m))
      \<longleftrightarrow> (case w of Finite q \<Rightarrow> q \<le> 0 \<or> 2 * q \<notin> \<int> \<or> DBL_MAX < 2 * q | _ \<Rightarrow> True))
   \<and> ((\<exists>c. fst (GradingCriteria_init obj w st) = Inr c \<and> weight c = w \<and> objective c = obj)
      \<longleftrightarrow> (case w of Finite q \<Rightarrow> \<not> (q \<le> 0 \<or> 2 * q \<notin> \<int> \<or> DBL_MAX < 2 * q)
                     | _ \<Rightarrow> False))"
  by (cases w)
    (simp_all add: GradingCriteria_init_def validate_weight_Finite validate_weight_not_finite)

theorem GradingCriteria_init_fails_iff_witness:
  "(\<exists>c. fst (GradingCriteria_init FACTUAL (Finite (3 / 2)) fresh_state) = Inr c
        \<and> weight c = Finite (3 / 2) \<and> objective c = FACTUAL)
   \<and> (\<exists>m. fst (GradingCriteria_init FACTUAL (Finite (1 / 4)) fresh_state)
           = Inl (ValidationError m))
   \<and> (\<exists>m. fst (GradingCriteria_init FACTUAL (Finite (- 1)) fresh_state)
           = Inl (ValidationError m))
   \<and> (\<exists>m. fst (GradingCriteria_init FACTUAL (Finite (2 ^ 1023)) fresh_state)
           = Inl (ValidationError m))
   \<and> (\<exists>m. fst (GradingCriteria_init FACTUAL NaN fresh_state) = Inl (ValidationError m))"
  using GradingCriteria_init_fails_iff[of FACTUAL "Finite (3 / 2)" fresh_state]
    GradingCriteria_init_fails_iff[of FACTUAL "Finite (1 / 4)" fresh_state]
    GradingCriteria_init_fails_iff[of FACTUAL "Finite (- 1)" fresh_state]
    GradingCriteria_init_fails_iff[of FACTUAL "Finite (2 ^ 1023)" fresh_state]
    GradingCriteria_init_fails_iff[of FACTUAL NaN fresh_state]
  by (simp add: GradingCriteria_init_def validate_weight_def DBL_MAX_def)

text \<open>
  C2 as stated fails at the weight \<open>2.0 ** 1023\<close>: it is positive and its double is
  an integer, yet the constructor rejects it, because the float product \<open>value * 2\<close>
  overflows.
\<close>

theorem GradingCriteria_init_overflow_counterexample:
  "fst (GradingCriteria_init FACTUAL (Finite (2 ^ 1023)) fresh_state)
     = Inl (ValidationError (PydanticJson ''Weight must be a multiple of 0.5''))
   \<and> \<not> ((2 ^ 1023 :: rat) \<le> 0 \<or> 2 * (2 ^ 1023 :: rat) \<notin> \<int>)"
  by (simp add: GradingCriteria_init_def validate_weight_def DBL_MAX_def)

lemma GradingCriteria_init_valid:
  "0 < w \<Longrightarrow> 2 * w \<in> \<int> \<Longrightarrow> 2 * w \<le> DBL_MAX \<Longrightarrow>
   GradingCriteria_init obj (Finite w) st =
     (Inr \<lparr>oid = next_criteria st, objective = obj, weight = Finite w\<rparr>,
      st\<lparr>next_criteria := Suc (next_criteria st)\<rparr>)"
  by (simp add: GradingCriteria_init_def validate_weight_Finite)

lemma GradingCriteria_init_one:
  "GradingCriteria_init obj (Finite 1) st =
     (Inr \<lparr>oid = next_criteria st, objective = obj, weight = Finite 1\<rparr>,
      st\<lparr>next_criteria := Suc (next_criteria st)\<rparr>)"
  by (simp add: GradingCriteria_init_valid two_le_DBL_MAX)

section \<open>Rubric: adding criteria\<close>

lemma map_of_dict_set: "map_of (dict_set d k v) = (map_of d)(k \<mapsto> v)"
  by (induction d) (auto simp: fun_eq_iff)

lemma keys_dict_set: "fst ` set (dict_set d k v) = insert k (fst ` set d)"
  by (induction d) force+

lemma length_dict_set:
  "length (dict_set d k v) = (if k \<in> fst ` set d then length d else Suc (length d))"
  by (induction d) force+

text \<open>
  C7. For every rubric, every objective and valid weights \<open>w1\<close>, \<open>w2\<close> (finite,
  positive, with an integral double that does not exceed the largest float): adding the
  objective with \<open>w1\<close> and then again with \<open>w2\<close> succeeds both times, the second call
  leaves the size as it was after the first, the criteria stored under the objective has
  weight \<open>w2\<close>, and it is another object than the one the first call stored (which had
  weight \<open>w1\<close>).
\<close>

theorem add_criteria_twice:
  assumes "0 < w1" "2 * w1 \<in> \<int>" "2 * w1 \<le> DBL_MAX"
    and "0 < w2" "2 * w2 \<in> \<int>" "2 * w2 \<le> DBL_MAX"
  shows "\<exists>st1 st2 c1 c2.
      Rubric_add_criteria r (AnObjective obj) (Finite w1) st = (Inr (), st1)
    \<and> Rubric_add_criteria r (AnObjective obj) (Finite w2) st1 = (Inr (), st2)
    \<and> Rubric_size r st2 = Rubric_size r st1
    \<and> map_of (criteria (rubric_heap st1 r)) obj = Some c1 \<and> weight c1 = Finite w1
    \<and> map_of (criteria (rubric_heap st2 r)) obj = Some c2 \<and> weight c2 = Finite w2
    \<and> oid c2 \<noteq> oid c1"
  using assms
  by (simp add: Rubric_add_criteria_def GradingCriteria_init_valid Rubric_size_def
      map_of_dict_set length_dict_set keys_dict_set)

theorem add_criteria_twice_witness:
  "\<exists>st1 st2 c1 c2.
      Rubric_add_criteria 0 (AnObjective FACTUAL) (Finite 1) module_state = (Inr (), st1)
    \<and> Rubric_add_criteria 0 (AnObjective FACTUAL) (Finite (1 / 2)) st1 = (Inr (), st2)
    \<and> Rubric_size 0 st1 = 1 \<and> Rubric_size 0 st2 = 1
    \<and> map_of (criteria (rubric_heap st1 0)) FACTUAL = Some c1 \<and> weight c1 = Finite 1
    \<and> map_of (criteria (rubric_heap st2 0)) FACTUAL = Some c2 \<and> weight c2 = Finite (1 / 2)
    \<and> oid c2 \<noteq> oid c1"
  using add_criteria_twice[of 1 "1 / 2" 0 FACTUAL module_state]
  by (simp add: Rubric_add_criteria_def GradingCriteria_init_def validate_weight_def
      DBL_MAX_def Rubric_size_def module_state_def fresh_state_def
      ShortAnswerQuestion_class_def Rubric_empty_def Rubric_init_def)

section \<open>Rubric: presets and the round trip through the payload\<close>

text \<open>
  C8. For every preset other than Custom, \<open>Rubric.from_rubric_type\<close> succeeds with a
  rubric whose size is the length of the preset's default list, in which every default
  pair is present with its weight (which is 1.0), and whose tag is the preset.
  \<open>Rubric.empty()\<close> has size 0 and tag Custom.
\<close>

theorem from_rubric_type_preset:
  "(t \<noteq> CUSTOM_RUBRIC \<longrightarrow>
     (\<exists>r st'. Rubric_from_rubric_type t st = (Inr r, st')
        \<and> Rubric_size r st' = length (default_criteria t)
        \<and> (\<forall>(obj, w) \<in> set (default_criteria t).
              w = Finite 1 \<and> (\<exists>c. map_of (criteria (rubric_heap st' r)) obj = Some c
                          \<and> weight c = w \<and> objective c = obj))
        \<and> rubric_type (rubric_heap st' r) = t))
   \<and> (\<exists>r st'. Rubric_empty st = (r, st') \<and> Rubric_size r st' = 0
        \<and> rubric_type (rubric_heap st' r) = CUSTOM_RUBRIC)"
  by (cases t)
    (simp_all add: Rubric_from_rubric_type_def RubricType_criteria_def GradingCriteria_init_one
      Rubric_init_def Rubric_size_def Rubric_empty_def)

theorem from_rubric_type_preset_witness:
  "\<exists>r st'. Rubric_from_rubric_type COMPREHENSIVE_RUBRIC fresh_state = (Inr r, st')
     \<and> Rubric_size r st' = 4
     \<and> map_option weight (map_of (criteria (rubric_heap st' r)) CREATIVITY) = Some (Finite 1)
     \<and> rubric_type (rubric_heap st' r) = COMPREHENSIVE_RUBRIC"
  using from_rubric_type_preset[of COMPREHENSIVE_RUBRIC fresh_state]
  by (simp add: Rubric_from_rubric_type_def RubricType_criteria_def GradingCriteria_init_one
      Rubric_init_def Rubric_size_def)

text \<open>
  C3. For every rubric built from a preset, \<open>Rubric.from_dict\<close> of its serialization
  succeeds and gives a rubric of the same size, with the same weight under every
  objective; its tag is Custom, so the tag of a preset other than Custom is not kept.
\<close>

theorem from_dict_serialize_preset:
  "\<exists>r st1 r' st2.
      Rubric_from_rubric_type t st = (Inr r, st1)
    \<and> Rubric_from_dict str_float (Rubric_serialize r st1) st1 = (Inr r', st2)
    \<and> Rubric_size r' st2 = Rubric_size r st1
    \<and> (\<forall>obj. map_option weight (map_of (criteria (rubric_heap st2 r')) obj)
            = map_option weight (map_of (criteria (rubric_heap st1 r)) obj))
    \<and> rubric_type (rubric_heap st1 r) = t
    \<and> rubric_type (rubric_heap st2 r') = CUSTOM_RUBRIC
    \<and> (t \<noteq> CUSTOM_RUBRIC \<longrightarrow> rubric_type (rubric_heap st2 r') \<noteq> t)"
  by (cases t)
    (simp_all add: Rubric_from_rubric_type_def RubricType_criteria_def GradingCriteria_init_one
      Rubric_init_def Rubric_size_def Rubric_serialize_def Rubric_from_dict_def
      Objective_of_value_def)

theorem from_dict_serialize_preset_witness:
  "\<exists>r st1 r' st2.
      Rubric_from_rubric_type FACTUAL_RUBRIC fresh_state = (Inr r, st1)
    \<and> Rubric_serialize r st1 =
        PyDict [(''factual understanding'', PyNum (Finite 1)), (''use of evidence'', PyNum (Finite 1)),
                (''clarity of writing'', PyNum (Finite 1))]
    \<and> Rubric_from_dict (\<lambda>_. None) (Rubric_serialize r st1) st1 = (Inr r', st2)
    \<and> Rubric_size r' st2 = 3 \<and> Rubric_size r st1 = 3
    \<and> rubric_type (rubric_heap st1 r) = FACTUAL_RUBRIC
    \<and> rubric_type (rubric_heap st2 r') = CUSTOM_RUBRIC"
  using from_dict_serialize_preset[of FACTUAL_RUBRIC fresh_state "\<lambda>_. None"]
  by (simp add: Rubric_from_rubric_type_def RubricType_criteria_def GradingCriteria_init_one
      Rubric_init_def Rubric_size_def Rubric_serialize_def Rubric_from_dict_def
      Objective_of_value_def)

section \<open>ShortAnswerQuestion: validation, serialization, the default rubric\<close>

text \<open>
  C6. \<open>_is_valid\<close> fails with a ValidationError whenever the rubric's size is 0, and it
  is the empty-rubric failure that is reported then, whatever the strings are; it fails
  with a ValidationError whenever the body or the example answer is the empty string;
  it succeeds when the rubric is not empty and both strings are not empty.
\<close>

theorem is_valid_cases:
  "(Rubric_size (rubric q) st = 0 \<longrightarrow>
      ShortAnswerQuestion_is_valid q st =
        Inl (ValidationError (Msg ''Rubric must have at least one criteria.'')))
   \<and> (body q = [] \<or> example_answer q = [] \<longrightarrow>
        (\<exists>m. ShortAnswerQuestion_is_valid q st = Inl (ValidationError m)))
   \<and> (Rubric_size (rubric q) st \<noteq> 0 \<and> (body q = [] \<or> example_answer q = []) \<longrightarrow>
        ShortAnswerQuestion_is_valid q st =
          Inl (ValidationError (Msg ''Question body and example answer cannot be empty.'')))
   \<and> (Rubric_size (rubric q) st \<noteq> 0 \<and> body q \<noteq> [] \<and> example_answer q \<noteq> [] \<longrightarrow>
        ShortAnswerQuestion_is_valid q st = Inr ())"
  by (simp add: ShortAnswerQuestion_is_valid_def)

theorem is_valid_cases_witness:
  "ShortAnswerQuestion_is_valid (ShortAnswerQuestion_init [] ''Canberra'' None module_state)
     module_state = Inl (ValidationError (Msg ''Rubric must have at least one criteria.''))
   \<and> (\<exists>r st. Rubric_from_rubric_type FACTUAL_RUBRIC module_state = (Inr r, st)
        \<and> ShortAnswerQuestion_is_valid
            (ShortAnswerQuestion_init ''What is the capital of Australia?'' [] (Some r) st) st
          = Inl (ValidationError (Msg ''Question body and example answer cannot be empty.''))
        \<and> ShortAnswerQuestion_is_valid
            (ShortAnswerQuestion_init ''What is the capital of Australia?'' ''Canberra'' (Some r) st)
            st = Inr ())"
  using is_valid_cases[of "ShortAnswerQuestion_init [] ''Canberra'' None module_state" module_state]
  by (simp add: ShortAnswerQuestion_is_valid_def ShortAnswerQuestion_init_def Rubric_size_def
      module_state_def fresh_state_def ShortAnswerQuestion_class_def Rubric_empty_def
      Rubric_init_def Rubric_from_rubric_type_def RubricType_criteria_def
      GradingCriteria_init_one)

text \<open>
  C1. The claim asks for the keys \<open>body\<close>, \<open>example_answer\<close> and \<open>rubric\<close>. For the
  question of the claim's example, \<open>_serialize\<close> of \<open>short_answer.py\<close> gives the keys
  \<open>question\<close>, \<open>example_answer\<close> and \<open>rubric\<close>: the payload has no key \<open>body\<close>. The
  older \<open>_serialize\<close> of \<open>question.py\<close> does store the body under \<open>body\<close>.
\<close>

theorem serialize_key_question:
  "\<exists>r st. Rubric_from_rubric_type FACTUAL_RUBRIC module_state = (Inr r, st)
     \<and> ShortAnswerQuestion_serialize
         (ShortAnswerQuestion_init ''What is the capital of Australia?'' ''Canberra'' (Some r) st) st
       = PyDict [(''question'', PyStr ''What is the capital of Australia?''),
                 (''example_answer'', PyStr ''Canberra''),
                 (''rubric'', PyDict [(''factual understanding'', PyNum (Finite 1)),
                                      (''use of evidence'', PyNum (Finite 1)),
                                      (''clarity of writing'', PyNum (Finite 1))])]
     \<and> py_getitem (ShortAnswerQuestion_serialize
         (ShortAnswerQuestion_init ''What is the capital of Australia?'' ''Canberra'' (Some r) st) st)
         ''body'' = Inl (KeyError ''body'')
     \<and> py_getitem (question_py_serialize
         (ShortAnswerQuestion_init ''What is the capital of Australia?'' ''Canberra'' (Some r) st) st)
         ''body'' = Inr (PyStr ''What is the capital of Australia?'')"
  by (simp add: Rubric_from_rubric_type_def RubricType_criteria_def GradingCriteria_init_one
      Rubric_init_def Rubric_serialize_def ShortAnswerQuestion_serialize_def
      ShortAnswerQuestion_init_def question_py_serialize_def)

text \<open>
  C4. Two questions constructed without a rubric argument refer to one and the same
  Rubric object. Once the class statement has run, that rubric is empty; adding a
  criteria (of a valid weight: finite, positive, with an integral double that does not
  exceed the largest float) through the first question makes the size seen through
  the second go from 0 to 1 and its serialization from the empty dict to the one-entry
  dict, and a question constructed afterwards without a rubric starts with that
  criteria: the default is not a fresh empty rubric per construction.
\<close>

theorem default_rubric_shared:
  "rubric (ShortAnswerQuestion_init b1 a1 None st) = rubric (ShortAnswerQuestion_init b2 a2 None st)
   \<and> (0 < w \<and> 2 * w \<in> \<int> \<and> 2 * w \<le> DBL_MAX \<longrightarrow>
       (\<exists>st'. ShortAnswerQuestion_add_criteria
                (ShortAnswerQuestion_init b1 a1 None (ShortAnswerQuestion_class st0))
                (AnObjective obj) (Finite w) (ShortAnswerQuestion_class st0) = (Inr (), st')
          \<and> Rubric_size (rubric (ShortAnswerQuestion_init b2 a2 None (ShortAnswerQuestion_class st0)))
               (ShortAnswerQuestion_class st0) = 0
          \<and> Rubric_size (rubric (ShortAnswerQuestion_init b2 a2 None (ShortAnswerQuestion_class st0)))
               st' = 1
          \<and> Rubric_serialize (rubric (ShortAnswerQuestion_init b2 a2 None (ShortAnswerQuestion_class st0)))
               (ShortAnswerQuestion_class st0) = PyDict []
          \<and> Rubric_serialize (rubric (ShortAnswerQuestion_init b2 a2 None (ShortAnswerQuestion_class st0)))
               st' = PyDict [(Objective_value obj, PyNum (Finite w))]
          \<and> Rubric_size (rubric (ShortAnswerQuestion_init b3 a3 None st')) st' = 1))"
  by (simp add: ShortAnswerQuestion_init_def ShortAnswerQuestion_add_criteria_def
      ShortAnswerQuestion_class_def Rubric_empty_def Rubric_init_def Rubric_add_criteria_def
      GradingCriteria_init_valid Rubric_size_def Rubric_serialize_def)

theorem default_rubric_shared_witness:
  "rubric (ShortAnswerQuestion_init ''Q1'' ''A1'' None module_state)
     = rubric (ShortAnswerQuestion_init ''Q2'' ''A2'' None module_state)
   \<and> (\<exists>st'. ShortAnswerQuestion_add_criteria
                (ShortAnswerQuestion_init ''Q1'' ''A1'' None module_state)
                (AnObjective FACTUAL) (Finite 1) module_state = (Inr (), st')
          \<and> Rubric_size (rubric (ShortAnswerQuestion_init ''Q2'' ''A2'' None module_state))
               module_state = 0
          \<and> Rubric_size (rubric (ShortAnswerQuestion_init ''Q2'' ''A2'' None module_state)) st' = 1
          \<and> Rubric_serialize (rubric (ShortAnswerQuestion_init ''Q2'' ''A2'' None module_state)) st'
             = PyDict [(''factual understanding'', PyNum (Finite 1))])"
  using default_rubric_shared[of "''Q1''" "''A1''" module_state "''Q2''" "''A2''" 1 fresh_state
      FACTUAL "''Q3''" "''A3''"]
  by (auto simp: module_state_def two_le_DBL_MAX)

section \<open>Rubric: reading a payload\<close>

lemma GradingCriteria_init_cases:
  "(\<exists>m. GradingCriteria_init obj w st = (Inl (ValidationError (PydanticJson m)), st))
   \<or> (\<exists>c st'. GradingCriteria_init obj w st = (Inr c, st'))"
  by (simp add: GradingCriteria_init_def split: sum.splits)

lemma from_dict_items_unknown:
  "\<exists>k\<in>fst ` set items. Objective_of_value k = None \<Longrightarrow>
   \<exists>e st'. from_dict_items sf items acc st = (Inl e, st')
     \<and> ((\<exists>k. e = ValueError k) \<or> (\<exists>m. e = ValidationError (PydanticJson m)))"
proof (induction items arbitrary: acc st)
  case Nil
  then show ?case by simp
next
  case (Cons kv items)
  obtain k v where kv: "kv = (k, v)" by (cases kv)
  show ?case
  proof (cases "Objective_of_value k")
    case None
    then show ?thesis by (simp add: kv)
  next
    case (Some obj)
    with Cons.prems kv have rest: "\<exists>k\<in>fst ` set items. Objective_of_value k = None"
      by auto
    show ?thesis
    proof (cases "pydantic_float sf v")
      case None
      with Some show ?thesis by (simp add: kv)
    next
      case (Some w)
      from GradingCriteria_init_cases[of obj w st] show ?thesis
      proof
        assume "\<exists>m. GradingCriteria_init obj w st = (Inl (ValidationError (PydanticJson m)), st)"
        with Some \<open>Objective_of_value k = Some obj\<close> show ?thesis
          by (auto simp: kv)
      next
        assume "\<exists>c st'. GradingCriteria_init obj w st = (Inr c, st')"
        then obtain c st' where "GradingCriteria_init obj w st = (Inr c, st')" by blast
        with Some \<open>Objective_of_value k = Some obj\<close> Cons.IH[OF rest, of "dict_set acc obj c" st']
        show ?thesis by (simp add: kv)
      qed
    qed
  qed
qed

lemma from_dict_items_valid:
  "\<forall>(k, v)\<in>set items. Objective_of_value k \<noteq> None
      \<and> (\<exists>w. v = PyNum (Finite w) \<and> 0 < w \<and> 2 * w \<in> \<int> \<and> 2 * w \<le> DBL_MAX) \<Longrightarrow>
   \<exists>c st'. from_dict_items sf items acc st = (Inr c, st')"
proof (induction items arbitrary: acc st)
  case Nil
  then show ?case by simp
next
  case (Cons kv items)
  obtain k v where kv: "kv = (k, v)" by (cases kv)
  from Cons.prems kv obtain obj w where
    k: "Objective_of_value k = Some obj" and v: "v = PyNum (Finite w)"
    and w: "0 < w" "2 * w \<in> \<int>" "2 * w \<le> DBL_MAX"
    by auto
  from Cons.prems have rest:
    "\<forall>(k, v)\<in>set items. Objective_of_value k \<noteq> None
      \<and> (\<exists>w. v = PyNum (Finite w) \<and> 0 < w \<and> 2 * w \<in> \<int> \<and> 2 * w \<le> DBL_MAX)"
    by simp
  from Cons.IH[OF rest] k v w show ?case
    by (simp add: kv GradingCriteria_init_valid)
qed

text \<open>
  C9. \<open>Rubric.from_dict\<close> fails with a ValidationError for every dict payload that has a
  label outside the Objective vocabulary; it fails with another ValidationError, whose
  message says that the payload must be a dictionary, for every payload that is not a
  dict; and for a dict with known labels and valid weights only (finite, positive, with
  an integral double that does not exceed the largest float) it succeeds with the tag
  Custom.
\<close>

theorem from_dict_failures:
  "((\<exists>k\<in>fst ` set items. Objective_of_value k = None) \<longrightarrow>
      (\<exists>m st'. Rubric_from_dict sf (PyDict items) st = (Inl (ValidationError m), st')
         \<and> m \<noteq> Msg ''Invalid payload provided. Must be a dictionary.''))
   \<and> ((\<forall>items'. payload \<noteq> PyDict items') \<longrightarrow>
        Rubric_from_dict sf payload st =
          (Inl (ValidationError (Msg ''Invalid payload provided. Must be a dictionary.'')), st))
   \<and> ((\<forall>(k, v)\<in>set items. Objective_of_value k \<noteq> None
          \<and> (\<exists>w. v = PyNum (Finite w) \<and> 0 < w \<and> 2 * w \<in> \<int> \<and> 2 * w \<le> DBL_MAX))
      \<longrightarrow>
        (\<exists>r st'. Rubric_from_dict sf (PyDict items) st = (Inr r, st')
           \<and> rubric_type (rubric_heap st' r) = CUSTOM_RUBRIC))"
proof (intro conjI impI)
  assume "\<exists>k\<in>fst ` set items. Objective_of_value k = None"
  from from_dict_items_unknown[OF this, of sf "[]" st]
  obtain e st' where "from_dict_items sf items [] st = (Inl e, st')"
    and "(\<exists>k. e = ValueError k) \<or> (\<exists>m. e = ValidationError (PydanticJson m))" by blast
  then show "\<exists>m st'. Rubric_from_dict sf (PyDict items) st = (Inl (ValidationError m), st')
         \<and> m \<noteq> Msg ''Invalid payload provided. Must be a dictionary.''"
    by (auto simp: Rubric_from_dict_def)
next
  assume "\<forall>items'. payload \<noteq> PyDict items'"
  then show "Rubric_from_dict sf payload st =
          (Inl (ValidationError (Msg ''Invalid payload provided. Must be a dictionary.'')), st)"
    by (cases payload) (simp_all add: Rubric_from_dict_def)
next
  assume "\<forall>(k, v)\<in>set items. Objective_of_value k \<noteq> None
          \<and> (\<exists>w. v = PyNum (Finite w) \<and> 0 < w \<and> 2 * w \<in> \<int> \<and> 2 * w \<le> DBL_MAX)"
  from from_dict_items_valid[OF this, of sf "[]" st]
  obtain c st' where "from_dict_items sf items [] st = (Inr c, st')" by blast
  then show "\<exists>r st'. Rubric_from_dict sf (PyDict items) st = (Inr r, st')
           \<and> rubric_type (rubric_heap st' r) = CUSTOM_RUBRIC"
    by (simp add: Rubric_from_dict_def Rubric_init_def)
qed

theorem from_dict_failures_witness:
  "Rubric_from_dict (\<lambda>_. None) (PyDict [(''creativity'', PyNum (Finite 1)), (''a label'', PyNum (Finite 1))]) fresh_state
     = (Inl (ValidationError (Msg ''Invalid payload.'')), fresh_state\<lparr>next_criteria := 1\<rparr>)
   \<and> Rubric_from_dict (\<lambda>_. None) (PyStr ''hello'') fresh_state
     = (Inl (ValidationError (Msg ''Invalid payload provided. Must be a dictionary.'')), fresh_state)
   \<and> (\<exists>r st'. Rubric_from_dict (\<lambda>_. None)
                 (PyDict [(''creativity'', PyNum (Finite 1)), (''self reflection'', PyNum (Finite (1 / 2)))]) fresh_state
               = (Inr r, st')
        \<and> rubric_type (rubric_heap st' r) = CUSTOM_RUBRIC \<and> Rubric_size r st' = 2)"
  using from_dict_failures[of "[(''creativity'', PyNum (Finite 1)), (''a label'', PyNum (Finite 1))]" "\<lambda>_. None"
      fresh_state "PyStr ''hello''"]
    from_dict_failures[of "[(''creativity'', PyNum (Finite 1)), (''self reflection'', PyNum (Finite (1 / 2)))]"
      "\<lambda>_. None" fresh_state "PyStr ''hello''"]
  by (simp add: Rubric_from_dict_def Objective_of_value_def GradingCriteria_init_def
      validate_weight_def DBL_MAX_def Rubric_init_def Rubric_size_def fresh_state_def)

section \<open>RPCClient: the response envelope\<close>

lemma parse_response_error:
  assumes "map_of d ''error'' = Some e"
  shows "RPCClient_parse_response (PyDict d) = Inl (Exception e)"
proof -
  have "''error'' \<in> fst ` set d"
    using assms map_of_eq_None_iff[of d "''error''"] by simp
  with assms show ?thesis by (simp add: RPCClient_parse_response_def)
qed

lemma parse_response_result:
  assumes "map_of d ''error'' = None"
  shows "RPCClient_parse_response (PyDict d) =
    (case map_of d ''result'' of None \<Rightarrow> Inl (KeyError ''result'') | Some r \<Rightarrow> Inr r)"
proof -
  have "''error'' \<notin> fst ` set d"
    using assms map_of_eq_None_iff[of d "''error''"] by simp
  then show ?thesis by (simp add: RPCClient_parse_response_def)
qed

lemma short_answer_unfold:
  assumes "respond w \<lparr>url = endpoint c,
             json = RPCClient_payload ''short_answer'' (PyList [data, PyStr answer]),
             headers = RPCClient_headers c, timeout = 10\<rparr> = Inr response_data"
  shows "fst (RPCClient_short_answer w c data answer st) =
    (case RPCClient_parse_response response_data of
       Inl e \<Rightarrow> Inl e
     | Inr result \<Rightarrow>
         (case py_getitem result ''feedback'' of
            Inl e \<Rightarrow> Inl e
          | Inr feedback \<Rightarrow>
              (case py_getitem result ''score'' of
                 Inl e \<Rightarrow> Inl e
               | Inr score \<Rightarrow> Inr (feedback, score))))"
  using assms
  by (simp add: RPCClient_short_answer_def RPCClient_make_request_def Let_def
      split: sum.splits)

text \<open>
  C10. For every decoded response that is a JSON object: if it has the key \<open>error\<close>, the
  client raises with exactly the value stored there, and so does \<open>short_answer\<close>;
  otherwise \<open>parse_response\<close> returns the \<open>result\<close> field, and \<open>short_answer\<close> returns the
  pair of the result's \<open>feedback\<close> and \<open>score\<close>, or the KeyError of the first of the two
  that is absent.
\<close>

theorem parse_response_cases:
  assumes "respond w \<lparr>url = endpoint c,
             json = RPCClient_payload ''short_answer'' (PyList [data, PyStr answer]),
             headers = RPCClient_headers c, timeout = 10\<rparr> = Inr (PyDict d)"
  shows "(map_of d ''error'' = Some e \<longrightarrow>
            RPCClient_parse_response (PyDict d) = Inl (Exception e)
          \<and> fst (RPCClient_short_answer w c data answer st) = Inl (Exception e))
       \<and> (map_of d ''error'' = None \<and> map_of d ''result'' = Some r \<longrightarrow>
            RPCClient_parse_response (PyDict d) = Inr r)
       \<and> (map_of d ''error'' = None \<and> map_of d ''result'' = Some (PyDict res) \<longrightarrow>
            fst (RPCClient_short_answer w c data answer st) =
              (case map_of res ''feedback'' of
                 None \<Rightarrow> Inl (KeyError ''feedback'')
               | Some f \<Rightarrow>
                   (case map_of res ''score'' of
                      None \<Rightarrow> Inl (KeyError ''score'')
                    | Some s \<Rightarrow> Inr (f, s))))"
proof (intro conjI impI)
  assume "map_of d ''error'' = Some e"
  then show "RPCClient_parse_response (PyDict d) = Inl (Exception e)"
    by (rule parse_response_error)
  then show "fst (RPCClient_short_answer w c data answer st) = Inl (Exception e)"
    by (simp add: short_answer_unfold[OF assms])
next
  assume "map_of d ''error'' = None \<and> map_of d ''result'' = Some r"
  then show "RPCClient_parse_response (PyDict d) = Inr r"
    by (simp add: parse_response_result)
next
  assume "map_of d ''error'' = None \<and> map_of d ''result'' = Some (PyDict res)"
  then have "RPCClient_parse_response (PyDict d) = Inr (PyDict res)"
    by (simp add: parse_response_result)
  then show "fst (RPCClient_short_answer w c data answer st) =
              (case map_of res ''feedback'' of
                 None \<Rightarrow> Inl (KeyError ''feedback'')
               | Some f \<Rightarrow>
                   (case map_of res ''score'' of
                      None \<Rightarrow> Inl (KeyError ''score'')
                    | Some s \<Rightarrow> Inr (f, s)))"
    by (simp add: short_answer_unfold[OF assms] split: option.splits)
qed

theorem parse_response_cases_witness:
  "fst (RPCClient_short_answer
          \<lparr>environ = (\<lambda>_. None), respond = (\<lambda>_. Inr (PyDict [(''error'', PyStr ''bad request'')]))\<rparr>
          \<lparr>endpoint = HOSTED_ENDPOINT, api_key = []\<rparr> (PyDict []) ''Canberra'' fresh_state)
     = Inl (Exception (PyStr ''bad request''))
   \<and> fst (RPCClient_short_answer
          \<lparr>environ = (\<lambda>_. None),
           respond = (\<lambda>_. Inr (PyDict [(''result'',
              PyDict [(''feedback'', PyStr ''good job''), (''score'', PyNum (Finite (9 / 10)))])]))\<rparr>
          \<lparr>endpoint = HOSTED_ENDPOINT, api_key = []\<rparr> (PyDict []) ''Canberra'' fresh_state)
     = Inr (PyStr ''good job'', PyNum (Finite (9 / 10)))
   \<and> fst (RPCClient_short_answer
          \<lparr>environ = (\<lambda>_. None),
           respond = (\<lambda>_. Inr (PyDict [(''result'', PyDict [(''feedback'', PyStr ''good job'')])]))\<rparr>
          \<lparr>endpoint = HOSTED_ENDPOINT, api_key = []\<rparr> (PyDict []) ''Canberra'' fresh_state)
     = Inl (KeyError ''score'')"
proof -
  let ?c = "\<lparr>endpoint = HOSTED_ENDPOINT, api_key = []\<rparr>"
  let ?req = "\<lparr>url = endpoint ?c,
             json = RPCClient_payload ''short_answer'' (PyList [PyDict [], PyStr ''Canberra'']),
             headers = RPCClient_headers ?c, timeout = 10\<rparr>"
  let ?d1 = "[(''error'', PyStr ''bad request'')]"
  let ?res2 = "[(''feedback'', PyStr ''good job''), (''score'', PyNum (Finite (9 / 10)))]"
  let ?res3 = "[(''feedback'', PyStr ''good job'')]"
  let ?w1 = "\<lparr>environ = (\<lambda>_. None), respond = (\<lambda>_. Inr (PyDict ?d1))\<rparr>"
  let ?w2 = "\<lparr>environ = (\<lambda>_. None), respond = (\<lambda>_. Inr (PyDict [(''result'', PyDict ?res2)]))\<rparr>"
  let ?w3 = "\<lparr>environ = (\<lambda>_. None), respond = (\<lambda>_. Inr (PyDict [(''result'', PyDict ?res3)]))\<rparr>"
  have h1: "respond ?w1 ?req = Inr (PyDict ?d1)" by simp
  have h2: "respond ?w2 ?req = Inr (PyDict [(''result'', PyDict ?res2)])" by simp
  have h3: "respond ?w3 ?req = Inr (PyDict [(''result'', PyDict ?res3)])" by simp
  show ?thesis
    using parse_response_cases[OF h1, where e = "PyStr ''bad request''" and st = fresh_state]
      parse_response_cases[OF h2, where res = ?res2 and st = fresh_state]
      parse_response_cases[OF h3, where res = ?res3 and st = fresh_state]
    by simp
qed

section \<open>ShortAnswerQuestion: grading\<close>

text \<open>
  C5. For every question and every answer, valid or not, \<open>grade\<close> posts exactly one
  request: the envelope of method \<open>short_answer\<close> whose parameters are the serialized
  question and the answer, in this order. It never consults \<open>_is_valid\<close> and leaves the
  rubrics as they are. When the reply carries a result with \<open>feedback\<close> and \<open>score\<close>,
  \<open>grade\<close> returns that pair.
\<close>

theorem grade_posts_unvalidated:
  "sent (snd (ShortAnswerQuestion_grade w q answer st)) =
     sent st @
       [\<lparr>url = endpoint (RPCClient_init w None),
         json = PyDict [(''id'', PyNum (Finite 1)), (''jsonrpc'', PyStr ''2.0''),
                        (''method'', PyStr ''short_answer''),
                        (''params'', PyList [ShortAnswerQuestion_serialize q st, PyStr answer])],
         headers = RPCClient_headers (RPCClient_init w None), timeout = 10\<rparr>]
   \<and> rubric_heap (snd (ShortAnswerQuestion_grade w q answer st)) = rubric_heap st
   \<and> (respond w
         \<lparr>url = endpoint (RPCClient_init w None),
          json = PyDict [(''id'', PyNum (Finite 1)), (''jsonrpc'', PyStr ''2.0''),
                        (''method'', PyStr ''short_answer''),
                        (''params'', PyList [ShortAnswerQuestion_serialize q st, PyStr answer])],
          headers = RPCClient_headers (RPCClient_init w None), timeout = 10\<rparr>
         = Inr (PyDict d)
       \<and> map_of d ''error'' = None \<and> map_of d ''result'' = Some (PyDict res)
       \<and> map_of res ''feedback'' = Some f \<and> map_of res ''score'' = Some s
      \<longrightarrow> fst (ShortAnswerQuestion_grade w q answer st) = Inr (f, s))"
proof (intro conjI impI)
  show "sent (snd (ShortAnswerQuestion_grade w q answer st)) =
     sent st @
       [\<lparr>url = endpoint (RPCClient_init w None),
         json = PyDict [(''id'', PyNum (Finite 1)), (''jsonrpc'', PyStr ''2.0''),
                        (''method'', PyStr ''short_answer''),
                        (''params'', PyList [ShortAnswerQuestion_serialize q st, PyStr answer])],
         headers = RPCClient_headers (RPCClient_init w None), timeout = 10\<rparr>]"
    by (simp add: ShortAnswerQuestion_grade_def RPCClient_short_answer_def
        RPCClient_make_request_def RPCClient_payload_def Let_def split: sum.splits)
  show "rubric_heap (snd (ShortAnswerQuestion_grade w q answer st)) = rubric_heap st"
    by (simp add: ShortAnswerQuestion_grade_def RPCClient_short_answer_def
        RPCClient_make_request_def Let_def split: sum.splits)
next
  assume a: "respond w
         \<lparr>url = endpoint (RPCClient_init w None),
          json = PyDict [(''id'', PyNum (Finite 1)), (''jsonrpc'', PyStr ''2.0''),
                        (''method'', PyStr ''short_answer''),
                        (''params'', PyList [ShortAnswerQuestion_serialize q st, PyStr answer])],
          headers = RPCClient_headers (RPCClient_init w None), timeout = 10\<rparr>
         = Inr (PyDict d)
       \<and> map_of d ''error'' = None \<and> map_of d ''result'' = Some (PyDict res)
       \<and> map_of res ''feedback'' = Some f \<and> map_of res ''score'' = Some s"
  then have r: "respond w \<lparr>url = endpoint (RPCClient_init w None),
             json = RPCClient_payload ''short_answer''
                      (PyList [ShortAnswerQuestion_serialize q st, PyStr answer]),
             headers = RPCClient_headers (RPCClient_init w None), timeout = 10\<rparr> = Inr (PyDict d)"
    by (simp add: RPCClient_payload_def)
  from a have "RPCClient_parse_response (PyDict d) = Inr (PyDict res)"
    by (simp add: parse_response_result)
  with a show "fst (ShortAnswerQuestion_grade w q answer st) = Inr (f, s)"
    by (simp add: ShortAnswerQuestion_grade_def short_answer_unfold[OF r])
qed

theorem grade_posts_unvalidated_witness:
  "ShortAnswerQuestion_is_valid (ShortAnswerQuestion_init [] ''Canberra'' None module_state)
     module_state = Inl (ValidationError (Msg ''Rubric must have at least one criteria.''))
   \<and> ShortAnswerQuestion_grade
       \<lparr>environ = (\<lambda>_. None),
        respond = (\<lambda>_. Inr (PyDict [(''result'',
           PyDict [(''feedback'', PyStr ''good job''), (''score'', PyNum (Finite (9 / 10)))])]))\<rparr>
       (ShortAnswerQuestion_init [] ''Canberra'' None module_state) ''Sydney'' module_state
     = (Inr (PyStr ''good job'', PyNum (Finite (9 / 10))),
        module_state\<lparr>sent :=
          [\<lparr>url = ''http://18.118.162.4/'',
            json = PyDict [(''id'', PyNum (Finite 1)), (''jsonrpc'', PyStr ''2.0''),
                           (''method'', PyStr ''short_answer''),
                           (''params'', PyList [PyDict [(''question'', PyStr []),
                                                        (''example_answer'', PyStr ''Canberra''),
                                                        (''rubric'', PyDict [])],
                                                PyStr ''Sydney''])],
            headers = [(''Authorization'', ''Bearer '')], timeout = 10\<rparr>]\<rparr>)"
  using grade_posts_unvalidated[where w = "\<lparr>environ = (\<lambda>_. None),
        respond = (\<lambda>_. Inr (PyDict [(''result'',
           PyDict [(''feedback'', PyStr ''good job''), (''score'', PyNum (Finite (9 / 10)))])]))\<rparr>"
      and q = "ShortAnswerQuestion_init [] ''Canberra'' None module_state"
      and answer = "''Sydney''" and st = module_state
      and d = "[(''result'', PyDict [(''feedback'', PyStr ''good job''), (''score'', PyNum (Finite (9 / 10)))])]"
      and res = "[(''feedback'', PyStr ''good job''), (''score'', PyNum (Finite (9 / 10)))]"
      and f = "PyStr ''good job''" and s = "PyNum (Finite (9 / 10))"]
  by (simp add: ShortAnswerQuestion_grade_def RPCClient_short_answer_def
      RPCClient_make_request_def RPCClient_payload_def RPCClient_parse_response_def
      RPCClient_init_def RPCClient_headers_def HOSTED_ENDPOINT_def
      ShortAnswerQuestion_serialize_def Rubric_serialize_def ShortAnswerQuestion_init_def
      ShortAnswerQuestion_is_valid_def Rubric_size_def
      module_state_def fresh_state_def ShortAnswerQuestion_class_def Rubric_empty_def
      Rubric_init_def)

end
